theory Spec2Isabelle
  imports Complex_Main
begin

section \<open>Conventions of the embedding\<close>

text \<open>
  The numerical kernels work on double-precision columns; here a double is a
  \<^typ>\<open>real\<close>, so every statement below is about the exact arithmetic the code
  approximates.  A nullable column is an \<^typ>\<open>'a option\<close> with \<open>None\<close> for SQL
  \<open>NULL\<close>.  A data frame is the list of its rows.  An exception raised by a
  Python function, by a user-defined function inside a Spark job or by the
  linear-algebra backend is the left summand of a result \<open>error + 'a\<close>.
\<close>

datatype error = ValueError | NullInVector | LinAlgError | RecursionError

subsection \<open>Column expressions of Spark SQL\<close>

text \<open>\<open>DataFrame.fillna(d, subset)\<close> on one cell.\<close>

definition fillna :: "real \<Rightarrow> real option \<Rightarrow> real" where
  "fillna d v = (case v of None \<Rightarrow> d | Some x \<Rightarrow> x)"

text \<open>\<open>f.log\<close> and \<open>f.log2\<close> are \<open>NULL\<close> outside the positive reals.\<close>

definition spark_log :: "real option \<Rightarrow> real option" where
  "spark_log v = (case v of None \<Rightarrow> None
                  | Some x \<Rightarrow> if 0 < x then Some (ln x) else None)"

definition spark_log2 :: "real option \<Rightarrow> real option" where
  "spark_log2 v = (case v of None \<Rightarrow> None
                   | Some x \<Rightarrow> if 0 < x then Some (log 2 x) else None)"

text \<open>Arithmetic on nullable columns: \<open>NULL\<close> is absorbing; a division by zero is \<open>NULL\<close>.\<close>

definition null_add :: "real option \<Rightarrow> real option \<Rightarrow> real option" where
  "null_add a b = (case (a, b) of (Some x, Some y) \<Rightarrow> Some (x + y) | _ \<Rightarrow> None)"

definition null_mult :: "real option \<Rightarrow> real option \<Rightarrow> real option" where
  "null_mult a b = (case (a, b) of (Some x, Some y) \<Rightarrow> Some (x * y) | _ \<Rightarrow> None)"

definition null_div :: "real option \<Rightarrow> real option \<Rightarrow> real option" where
  "null_div a b = (case (a, b) of
                     (Some x, Some y) \<Rightarrow> if y = 0 then None else Some (x / y)
                   | _ \<Rightarrow> None)"

text \<open>The aggregate \<open>f.sum\<close>: the sum of the non-null cells, \<open>NULL\<close> when there is none.\<close>

definition spark_sum :: "real option list \<Rightarrow> real option" where
  "spark_sum vs = (if list_all (\<lambda>v. v = None) vs then None
                   else Some (sum_list (map (fillna 0) vs)))"

text \<open>
  \<open>array_distinct\<close>, and the keys of a \<open>groupBy\<close>: one entry per value, in the
  order of first occurrence.  \<open>array_union\<close> concatenates and removes duplicates.
\<close>

definition array_distinct :: "'a list \<Rightarrow> 'a list" where
  "array_distinct xs = foldl (\<lambda>acc x. if x \<in> set acc then acc else acc @ [x]) [] xs"

definition array_union :: "'a list \<Rightarrow> 'a list \<Rightarrow> 'a list" where
  "array_union xs ys = array_distinct (xs @ ys)"

definition group_keys :: "('r \<Rightarrow> 'k) \<Rightarrow> 'r list \<Rightarrow> 'k list" where
  "group_keys key rows = array_distinct (map key rows)"

definition group_rows :: "('r \<Rightarrow> 'k) \<Rightarrow> 'r list \<Rightarrow> 'k \<Rightarrow> 'r list" where
  "group_rows key rows k = filter (\<lambda>r. key r = k) rows"

text \<open>
  \<open>fml.array_to_vector\<close> builds a dense vector of doubles; an array with a
  \<open>NULL\<close> element makes the job fail.
\<close>

fun array_to_vector :: "real option list \<Rightarrow> error + real list" where
  "array_to_vector [] = Inr []"
| "array_to_vector (None # vs) = Inl NullInVector"
| "array_to_vector (Some x # vs) =
     (case array_to_vector vs of Inl e \<Rightarrow> Inl e | Inr xs \<Rightarrow> Inr (x # xs))"

text \<open>A job over the groups: the first failure aborts it, filtered groups leave no row.\<close>

fun collect_rows :: "(error + 'a option) list \<Rightarrow> error + 'a list" where
  "collect_rows [] = Inr []"
| "collect_rows (Inl e # rs) = Inl e"
| "collect_rows (Inr None # rs) = collect_rows rs"
| "collect_rows (Inr (Some x) # rs) =
     (case collect_rows rs of Inl e \<Rightarrow> Inl e | Inr xs \<Rightarrow> Inr (x # xs))"

section \<open>Colocalisation (otg/method/colocalisation.py)\<close>

text \<open>One row of \<open>StudyLocusOverlap\<close>: a tag variant shared by two study loci.\<close>

record overlap_row =
  chromosome :: string
  left_studyLocusId :: int
  right_studyLocusId :: int
  tagVariantId :: string
  left_logABF :: "real option"
  right_logABF :: "real option"
  left_posteriorProbability :: "real option"
  right_posteriorProbability :: "real option"

text \<open>The columns both methods emit, then those of each method.\<close>

record colocalisation =
  res_left_studyLocusId :: int
  res_right_studyLocusId :: int
  coloc_n_vars :: nat
  colocalisationMethod :: string

record ecaviar_result = colocalisation +
  clpp :: "real option"

record coloc_result = colocalisation +
  res_chromosome :: string
  coloc_h0 :: real
  coloc_h1 :: real
  coloc_h2 :: real
  coloc_h3 :: real
  coloc_h4 :: real
  coloc_log2_h4_h3 :: "real option"

subsection \<open>ECaviar\<close>

definition get_clpp :: "real option \<Rightarrow> real option \<Rightarrow> real option" where
  "get_clpp left_pp right_pp = null_mult left_pp right_pp"

definition ecaviar_key :: "overlap_row \<Rightarrow> int \<times> int" where
  "ecaviar_key r = (left_studyLocusId r, right_studyLocusId r)"

definition ecaviar_group :: "int \<times> int \<Rightarrow> overlap_row list \<Rightarrow> ecaviar_result" where
  "ecaviar_group k grp =
     \<lparr> res_left_studyLocusId = fst k,
       res_right_studyLocusId = snd k,
       coloc_n_vars = length grp,
       colocalisationMethod = ''eCAVIAR'',
       clpp = spark_sum (map (\<lambda>r. get_clpp (left_posteriorProbability r)
                                            (right_posteriorProbability r)) grp) \<rparr>"

definition ecaviar_colocalise :: "overlap_row list \<Rightarrow> ecaviar_result list" where
  "ecaviar_colocalise overlapping_signals =
     map (\<lambda>k. ecaviar_group k (group_rows ecaviar_key overlapping_signals k))
         (group_keys ecaviar_key overlapping_signals)"

subsection \<open>Coloc\<close>

text \<open>\<open>np.max\<close> raises \<open>ValueError\<close> on an empty vector.\<close>

definition np_max :: "real list \<Rightarrow> error + real" where
  "np_max v = (case v of [] \<Rightarrow> Inl ValueError | x # xs \<Rightarrow> Inr (fold max xs x))"

definition get_logsum :: "real list \<Rightarrow> error + real" where
  "get_logsum log_abf =
     (case np_max log_abf of
        Inl e \<Rightarrow> Inl e
      | Inr themax \<Rightarrow>
          Inr (themax + ln (sum_list (map (\<lambda>x. exp (x - themax)) log_abf))))"

definition get_posteriors :: "real list \<Rightarrow> error + real list" where
  "get_posteriors all_abfs =
     (case get_logsum all_abfs of
        Inl e \<Rightarrow> Inl e
      | Inr s \<Rightarrow> Inr (map (\<lambda>x. exp (x - s)) all_abfs))"

definition coloc_key :: "overlap_row \<Rightarrow> string \<times> int \<times> int" where
  "coloc_key r = (chromosome r, left_studyLocusId r, right_studyLocusId r)"

text \<open>
  The log-evidences \<open>lH0abf\<close> .. \<open>lH4abf\<close> of one pair, from the three log-sums,
  as the array that \<open>allABF\<close> is built from.
\<close>

definition coloc_all_abf ::
  "real \<Rightarrow> real \<Rightarrow> real \<Rightarrow> real \<Rightarrow> real \<Rightarrow> real \<Rightarrow> real option list" where
  "coloc_all_abf priorc1 priorc2 priorc12 logsum1 logsum2 logsum12 =
     (let lH0abf = Some 0;
          lH1abf = null_add (spark_log (Some priorc1)) (Some logsum1);
          lH2abf = null_add (spark_log (Some priorc2)) (Some logsum2);
          sumlogsum = logsum1 + logsum2;
          mx = max sumlogsum logsum12;
          logdiff = null_add (Some mx)
                      (spark_log (Some (exp (sumlogsum - mx) - exp (logsum12 - mx))));
          lH3abf = null_add (null_add (spark_log (Some priorc1))
                                      (spark_log (Some priorc2))) logdiff;
          lH4abf = null_add (spark_log (Some priorc12)) (Some logsum12)
      in [lH0abf, lH1abf, lH2abf, lH3abf, lH4abf])"

text \<open>The row emitted for a pair, from its posterior vector.\<close>

definition coloc_output :: "string \<times> int \<times> int \<Rightarrow> nat \<Rightarrow> real list \<Rightarrow> coloc_result" where
  "coloc_output k n posteriors =
     \<lparr> res_left_studyLocusId = fst (snd k),
       res_right_studyLocusId = snd (snd k),
       coloc_n_vars = n,
       colocalisationMethod = ''COLOC'',
       res_chromosome = fst k,
       coloc_h0 = posteriors ! 0,
       coloc_h1 = posteriors ! 1,
       coloc_h2 = posteriors ! 2,
       coloc_h3 = posteriors ! 3,
       coloc_h4 = posteriors ! 4,
       coloc_log2_h4_h3 =
         spark_log2 (null_div (Some (posteriors ! 4)) (Some (posteriors ! 3))) \<rparr>"

text \<open>
  One group of the \<open>groupBy\<close>: nulls filled with 0, the three vectors collected,
  their log-sums, the filter \<open>sumlogsum != logsum12\<close> (\<open>Inr None\<close> is a group it
  removes), the log-evidences and their posteriors.
\<close>

definition coloc_group ::
  "real \<Rightarrow> real \<Rightarrow> real \<Rightarrow> string \<times> int \<times> int \<Rightarrow> overlap_row list
     \<Rightarrow> error + coloc_result option" where
  "coloc_group priorc1 priorc2 priorc12 k grp =
     (let lefts = map (\<lambda>r. fillna 0 (left_logABF r)) grp;
          rights = map (\<lambda>r. fillna 0 (right_logABF r)) grp;
          sum_log_abf = map (\<lambda>r. fillna 0 (left_logABF r) + fillna 0 (right_logABF r)) grp
      in case get_logsum lefts of Inl e \<Rightarrow> Inl e | Inr logsum1 \<Rightarrow>
         (case get_logsum rights of Inl e \<Rightarrow> Inl e | Inr logsum2 \<Rightarrow>
         (case get_logsum sum_log_abf of Inl e \<Rightarrow> Inl e | Inr logsum12 \<Rightarrow>
           (if \<not> (logsum1 + logsum2 \<noteq> logsum12) then Inr None
            else
              (case array_to_vector
                      (coloc_all_abf priorc1 priorc2 priorc12 logsum1 logsum2 logsum12) of
                 Inl e \<Rightarrow> Inl e
               | Inr allABF \<Rightarrow>
                  (case get_posteriors allABF of
                     Inl e \<Rightarrow> Inl e
                   | Inr posteriors \<Rightarrow>
                       Inr (Some (coloc_output k (length grp) posteriors))))))))"

definition colocalise ::
  "overlap_row list \<Rightarrow> real \<Rightarrow> real \<Rightarrow> real \<Rightarrow> error + coloc_result list" where
  "colocalise overlapping_signals priorc1 priorc2 priorc12 =
     collect_rows
       (map (\<lambda>k. coloc_group priorc1 priorc2 priorc12 k
                   (group_rows coloc_key overlapping_signals k))
            (group_keys coloc_key overlapping_signals))"

section \<open>Effect harmonisation (etl/gwas_ingest/effect_harmonization.py)\<close>

text \<open>
  Three-valued logic of column comparisons: \<open>==\<close> on a \<open>NULL\<close> is \<open>NULL\<close>; \<open>|\<close> is true
  when one side is true, \<open>NULL\<close> when no side is true and one is \<open>NULL\<close>.  A branch of
  \<open>f.when\<close> is taken only when its condition is true.
\<close>

definition sql_eq :: "'a option \<Rightarrow> 'a option \<Rightarrow> bool option" where
  "sql_eq a b = (case (a, b) of (Some x, Some y) \<Rightarrow> Some (x = y) | _ \<Rightarrow> None)"

definition sql_or :: "bool option \<Rightarrow> bool option \<Rightarrow> bool option" where
  "sql_or a b =
     (if a = Some True \<or> b = Some True then Some True
      else if a = None \<or> b = None then None
      else Some False)"

definition is_true :: "bool option \<Rightarrow> bool" where
  "is_true c = (c = Some True)"

text \<open>\<open>allele_col.rlike("[ACTG]+")\<close>: some character of the allele is one of A, C, T, G.\<close>

definition rlike_actg :: "string \<Rightarrow> bool" where
  "rlike_actg s = list_ex (\<lambda>c. c \<in> set ''ACTG'') s"

text \<open>\<open>f.translate(allele_col, "ACTG", "TGAC")\<close> on one character.\<close>

definition translate_actg :: "char \<Rightarrow> char" where
  "translate_actg c =
     (if c = CHR ''A'' then CHR ''T''
      else if c = CHR ''C'' then CHR ''G''
      else if c = CHR ''T'' then CHR ''A''
      else if c = CHR ''G'' then CHR ''C''
      else c)"

definition get_reverse_complement :: "string option \<Rightarrow> string option" where
  "get_reverse_complement allele_col =
     (case allele_col of
        None \<Rightarrow> None
      | Some s \<Rightarrow> if rlike_actg s then Some (rev (map translate_actg s)) else Some s)"

text \<open>The column \<open>needsHarmonisation\<close> of \<open>harmonize_effect\<close>.\<close>

definition needsHarmonisation ::
  "string option \<Rightarrow> string option \<Rightarrow> string option \<Rightarrow> bool" where
  "needsHarmonisation referenceAllele alternateAllele riskAllele =
     (if is_true (sql_eq referenceAllele (get_reverse_complement alternateAllele)) then False
      else if is_true (sql_or (sql_eq riskAllele referenceAllele)
                              (sql_eq riskAllele (get_reverse_complement referenceAllele)))
           then True
      else False)"

section \<open>Discovery samples of the GWAS Catalog (otg/datasource/gwas_catalog/study_index.py)\<close>

text \<open>
  One struct of the array \<open>discoverySamples\<close>; both fields are taken as present.
  Sample counts are 64-bit in the source and unbounded here.
\<close>

record discovery_sample =
  ancestry :: string
  sampleSize :: int

text \<open>
  \<open>f.split(sample.ancestry, r",\s(?![^()]*\))")\<close>: the separator is a comma and one
  white-space character, unless the next parenthesis after it is a closing one.
  Matches are taken from left to right and empty pieces are kept.
\<close>

definition is_whitespace :: "char \<Rightarrow> bool" where
  "is_whitespace c = (c \<in> set [CHR '' '', CHR 0x09, CHR 0x0A, CHR 0x0B, CHR 0x0C, CHR 0x0D])"

definition closes_parenthesis :: "string \<Rightarrow> bool" where
  "closes_parenthesis rest =
     (case dropWhile (\<lambda>c. c \<noteq> CHR ''('' \<and> c \<noteq> CHR '')'') rest of
        [] \<Rightarrow> False
      | c # _ \<Rightarrow> c = CHR '')'')"

fun split_from :: "string \<Rightarrow> string \<Rightarrow> string list" where
  "split_from cur [] = [rev cur]"
| "split_from cur [c] = [rev (c # cur)]"
| "split_from cur (c # d # rest) =
     (if c = CHR '','' \<and> is_whitespace d \<and> \<not> closes_parenthesis rest
      then rev cur # split_from [] rest
      else split_from (c # cur) (d # rest))"

definition split_ancestry :: "string \<Rightarrow> string list" where
  "split_ancestry s = split_from [] s"

text \<open>A cast of a double to \<open>IntegerType\<close> drops the fraction.\<close>

definition cast_int :: "real \<Rightarrow> int" where
  "cast_int x = (if 0 \<le> x then \<lfloor>x\<rfloor> else \<lceil>x\<rceil>)"

definition normalize_ancestries ::
  "discovery_sample list \<Rightarrow> discovery_sample \<Rightarrow> discovery_sample list" where
  "normalize_ancestries merged anc =
     map (\<lambda>a. if ancestry a = ancestry anc
               then \<lparr> ancestry = ancestry a, sampleSize = sampleSize a + sampleSize anc \<rparr>
               else a) merged"

definition merge_ancestries_and_counts :: "string list \<times> int \<Rightarrow> discovery_sample list" where
  "merge_ancestries_and_counts ancestry_group =
     (let count = snd ancestry_group
      in map (\<lambda>a. \<lparr> ancestry = a, sampleSize = count \<rparr>) (fst ancestry_group))"

text \<open>The local columns of \<open>_parse_discovery_samples\<close>, then the function.\<close>

definition exploded_ancestries :: "discovery_sample list \<Rightarrow> string list list" where
  "exploded_ancestries discovery_samples =
     map (\<lambda>sample. split_ancestry (ancestry sample)) discovery_samples"

definition unique_ancestries :: "discovery_sample list \<Rightarrow> discovery_sample list" where
  "unique_ancestries discovery_samples =
     map (\<lambda>a. \<lparr> ancestry = a, sampleSize = 0 \<rparr>)
         (array_distinct (foldl array_union [] (exploded_ancestries discovery_samples)))"

definition resolved_sample_count :: "discovery_sample list \<Rightarrow> int list" where
  "resolved_sample_count discovery_samples =
     map (\<lambda>pop. cast_int (real_of_int (snd pop) / real_of_int (fst pop)))
         (zip (map (\<lambda>pop. int (length pop)) (exploded_ancestries discovery_samples))
              (map sampleSize discovery_samples))"

definition split_sample_groups :: "discovery_sample list \<Rightarrow> discovery_sample list list" where
  "split_sample_groups discovery_samples =
     map merge_ancestries_and_counts
         (zip (exploded_ancestries discovery_samples)
              (resolved_sample_count discovery_samples))"

definition parsed_sample_size :: "discovery_sample list \<Rightarrow> discovery_sample list" where
  "parsed_sample_size discovery_samples =
     foldl array_union [] (split_sample_groups discovery_samples)"

definition parse_discovery_samples :: "discovery_sample list \<Rightarrow> discovery_sample list" where
  "parse_discovery_samples discovery_samples =
     foldl normalize_ancestries (unique_ancestries discovery_samples)
           (parsed_sample_size discovery_samples)"

section \<open>RAISS imputation (gentropy/method/sumstat_imputation.py)\<close>

text \<open>
  A two-dimensional array is the list of its rows.  The calls written
  \<open>sumstat_imputation.f(...)\<close> in the source are calls of the static method \<open>f\<close> of
  the class \<open>SummaryStatisticsImputation\<close>.
\<close>

type_synonym vector = "real list"
type_synonym matrix = "real list list"

text \<open>
  The linear-algebra backend: \<open>scipy.linalg.pinv(a, rtol=rtol, atol=0)\<close>, which may
  raise, and \<open>np.linalg.cond\<close>.
\<close>

record linalg =
  pinv :: "matrix \<Rightarrow> real \<Rightarrow> error + matrix"
  cond :: "matrix \<Rightarrow> real"

definition dot :: "vector \<Rightarrow> vector \<Rightarrow> real" where
  "dot u v = sum_list (map2 (*) u v)"

definition mat_vec :: "matrix \<Rightarrow> vector \<Rightarrow> vector" where
  "mat_vec a v = map (\<lambda>row. dot row v) a"

definition mat_mul :: "matrix \<Rightarrow> matrix \<Rightarrow> matrix" where
  "mat_mul a b = map (\<lambda>row. map (\<lambda>col. dot row col) (transpose b)) a"

definition is_matrix :: "nat \<Rightarrow> nat \<Rightarrow> matrix \<Rightarrow> bool" where
  "is_matrix r c a = (length a = r \<and> list_all (\<lambda>row. length row = c) a)"

text \<open>\<open>np.fill_diagonal(a, val)\<close>, as the array it leaves in place of \<open>a\<close>.\<close>

definition fill_diagonal :: "matrix \<Rightarrow> real \<Rightarrow> matrix" where
  "fill_diagonal a val = map (\<lambda>(i, row). row[i := val]) (zip [0..<length a] a)"

text \<open>\<open>np.allclose(a, b)\<close> with its default tolerances, on arrays of one shape.\<close>

definition allclose :: "matrix \<Rightarrow> matrix \<Rightarrow> bool" where
  "allclose a b =
     list_all (\<lambda>(ra, rb). list_all (\<lambda>(x, y). \<bar>x - y\<bar> \<le> 1 / 10 ^ 8 + (1 / 10 ^ 5) * \<bar>y\<bar>)
                                     (zip ra rb))
              (zip a b)"

text \<open>
  \<open>_invert_sig_t\<close> writes the diagonal of \<open>sig_t\<close> in place, so the array is
  threaded through: the first component of the result is \<open>sig_t\<close> as the call
  leaves it.  The second is the value returned (\<open>Some\<close> of an array; \<open>None\<close> would be
  Python's \<open>None\<close>) or the exception raised.  The recursion of the source has no
  base case; \<open>depth\<close> is the number of nested calls the interpreter still admits
  before it raises \<open>RecursionError\<close>, which no handler of the source catches.
\<close>

fun invert_sig_t ::
  "linalg \<Rightarrow> nat \<Rightarrow> matrix \<Rightarrow> real \<Rightarrow> real \<Rightarrow> matrix \<times> (error + matrix option)" where
  "invert_sig_t la 0 sig_t lamb rtol = (sig_t, Inl RecursionError)"
| "invert_sig_t la (Suc depth) sig_t lamb rtol =
     (let sig_t' = fill_diagonal sig_t (1 + lamb)
      in case pinv la sig_t' rtol of
           Inr sig_t_inv \<Rightarrow> (sig_t', Inr (Some sig_t_inv))
         | Inl e \<Rightarrow>
             if e = LinAlgError
             then invert_sig_t la depth sig_t' (lamb * (11 / 10)) (rtol * (11 / 10))
             else (sig_t', Inl e))"

definition compute_mu :: "matrix \<Rightarrow> matrix \<Rightarrow> vector \<Rightarrow> vector" where
  "compute_mu sig_i_t sig_t_inv zt = mat_vec sig_i_t (mat_vec sig_t_inv zt)"

text \<open>The contraction \<open>"ij,jk,ki->i"\<close> is, for row \<open>i\<close>, that row times \<open>sig_t_inv\<close> times that row.\<close>

definition compute_var :: "matrix \<Rightarrow> matrix \<Rightarrow> real \<Rightarrow> vector \<times> vector" where
  "compute_var sig_i_t sig_t_inv lamb =
     (let var = map (\<lambda>row. (1 + lamb) - dot row (mat_vec sig_t_inv row)) sig_i_t;
          ld_score = map (\<lambda>row. sum_list (map (\<lambda>x. x ^ 2) row)) sig_i_t
      in (var, ld_score))"

definition check_inversion :: "matrix \<Rightarrow> matrix \<Rightarrow> bool" where
  "check_inversion sig_t sig_t_inv = allclose sig_t (mat_mul sig_t (mat_mul sig_t_inv sig_t))"

text \<open>
  \<open>_var_in_boundaries\<close> assigns into the array it is given and returns that same
  array: the value below is both what it returns and what the caller's \<open>var\<close>
  holds afterwards.
\<close>

definition var_in_boundaries :: "vector \<Rightarrow> real \<Rightarrow> vector" where
  "var_in_boundaries var lamb =
     map (\<lambda>v. let v' = (if v < 0 then 0 else v)
               in if v' > 99999 / 100000 + lamb then 1 else v') var"

text \<open>
  \<open>np.sqrt\<close> of a negative number and a division by zero give \<open>nan\<close> or an
  infinity: \<open>None\<close> stands for an entry that is not a finite number.
\<close>

definition np_sqrt :: "real \<Rightarrow> real option" where
  "np_sqrt x = (if x < 0 then None else Some (sqrt x))"

definition np_divide :: "real \<Rightarrow> real option \<Rightarrow> real option" where
  "np_divide x d = (case d of None \<Rightarrow> None
                    | Some y \<Rightarrow> if y = 0 then None else Some (x / y))"

record raiss_result =
  var :: vector
  mu :: "real option list"
  ld_score :: vector
  condition_number :: vector
  correct_inversion :: "bool list"
  imputation_R2 :: vector

text \<open>The dictionary returned: \<open>{"mu": None}\<close>, or the six arrays.\<close>

datatype raiss_output = MuNone | Imputed raiss_result

text \<open>
  The arrays are taken with conforming shapes (\<open>zt\<close> of length \<open>K\<close>, \<open>sig_t\<close> and its
  pseudo-inverse \<open>K \<times> K\<close>, every row of \<open>sig_i_t\<close> of length \<open>K\<close>); numpy raises
  \<open>ValueError\<close> on the others.
\<close>

definition raiss_model ::
  "linalg \<Rightarrow> nat \<Rightarrow> vector \<Rightarrow> matrix \<Rightarrow> matrix \<Rightarrow> real \<Rightarrow> real
     \<Rightarrow> matrix \<times> (error + raiss_output)" where
  "raiss_model la depth zt sig_t sig_i_t lamb rtol =
     (case invert_sig_t la depth sig_t lamb rtol of
        (sig_t', Inl e) \<Rightarrow> (sig_t', Inl e)
      | (sig_t', Inr None) \<Rightarrow> (sig_t', Inr MuNone)
      | (sig_t', Inr (Some sig_t_inv)) \<Rightarrow>
          if \<not> (is_matrix (length zt) (length zt) sig_t'
                \<and> is_matrix (length zt) (length zt) sig_t_inv
                \<and> is_matrix (length sig_i_t) (length zt) sig_i_t)
          then (sig_t', Inl ValueError)
          else
            (let condition_number = replicate (length sig_i_t) (cond la sig_t');
                 correct_inversion =
                   replicate (length sig_i_t) (check_inversion sig_t' sig_t_inv);
                 (var0, ld_score) = compute_var sig_i_t sig_t_inv lamb;
                 mu0 = compute_mu sig_i_t sig_t_inv zt;
                 var_norm = var_in_boundaries var0 lamb;
                 var = var_norm;
                 R2 = map (\<lambda>v. (1 + lamb) - v) var_norm;
                 mu = map (\<lambda>(m, r). np_divide m (np_sqrt r)) (zip mu0 R2)
             in (sig_t',
                 Inr (Imputed \<lparr> var = var, mu = mu, ld_score = ld_score,
                                condition_number = condition_number,
                                correct_inversion = correct_inversion,
                                imputation_R2 = map (\<lambda>v. 1 - v) var \<rparr>))))"

section \<open>Vocabulary and concrete inputs of the statements\<close>

text \<open>
  For a row of the overlap: both posterior probabilities are present, and their
  product.  For a row of the result: the rows of the overlap that belong to its pair.
\<close>

definition both_present :: "overlap_row \<Rightarrow> bool" where
  "both_present r =
     (left_posteriorProbability r \<noteq> None \<and> right_posteriorProbability r \<noteq> None)"

definition pp_product :: "overlap_row \<Rightarrow> real" where
  "pp_product r = the (left_posteriorProbability r) * the (right_posteriorProbability r)"

definition pair_rows :: "overlap_row list \<Rightarrow> ecaviar_result \<Rightarrow> overlap_row list" where
  "pair_rows rows res =
     group_rows ecaviar_key rows (res_left_studyLocusId res, res_right_studyLocusId res)"

text \<open>A tag variant shared by the study loci 1 and 2 on chromosome 1.\<close>

definition shared_variant ::
  "string \<Rightarrow> real option \<Rightarrow> real option \<Rightarrow> real option \<Rightarrow> real option \<Rightarrow> overlap_row" where
  "shared_variant v labf rabf lpp rpp =
     \<lparr> chromosome = ''1'', left_studyLocusId = 1, right_studyLocusId = 2,
       tagVariantId = v, left_logABF = labf, right_logABF = rabf,
       left_posteriorProbability = lpp, right_posteriorProbability = rpp \<rparr>"


text \<open>Two shared variants, each with a log ABF of 0 on one side and none on the other.\<close>

definition two_snp_overlap :: "overlap_row list" where
  "two_snp_overlap =
     [shared_variant ''snp1'' (Some 0) None None None,
      shared_variant ''snp2'' None (Some 0) None None]"


text \<open>Three shared variants; the second has no posterior probability on the right.\<close>

definition ecaviar_null_side_rows :: "overlap_row list" where
  "ecaviar_null_side_rows =
     [shared_variant ''v1'' None None (Some (5 / 10)) (Some (5 / 10)),
      shared_variant ''v2'' None None (Some (4 / 10)) None,
      shared_variant ''v3'' None None (Some (1 / 10)) (Some (1 / 10))]"


section \<open>Facts about the column expressions\<close>

lemma foldl_distinct_set:
  "set (foldl (\<lambda>acc x. if x \<in> set acc then acc else acc @ [x]) acc xs) = set acc \<union> set xs"
  by (induction xs arbitrary: acc) auto

lemma array_distinct_set: "set (array_distinct xs) = set xs"
  by (simp add: array_distinct_def foldl_distinct_set)








lemma array_to_vector_length: "array_to_vector vs = Inr xs \<Longrightarrow> length xs = length vs"
  by (induction vs arbitrary: xs rule: array_to_vector.induct) (auto split: sum.splits)

lemma collect_rows_mem:
  "collect_rows rs = Inr xs \<Longrightarrow> x \<in> set xs \<Longrightarrow> Inr (Some x) \<in> set rs"
  by (induction rs arbitrary: xs rule: collect_rows.induct) (auto split: sum.splits)

section \<open>Coloc: the posteriors\<close>

lemma sum_list_exp_nonneg: "0 \<le> sum_list (map (\<lambda>x. exp (x - m :: real)) xs)"
  by (induction xs) simp_all

lemma sum_list_exp_pos:
  "xs \<noteq> [] \<Longrightarrow> 0 < sum_list (map (\<lambda>x. exp (x - m :: real)) xs)"
proof (cases xs)
  case Nil
  assume "xs \<noteq> []"
  with Nil show ?thesis by simp
next
  case (Cons y ys)
  have "0 < exp (y - m) + sum_list (map (\<lambda>x. exp (x - m)) ys)"
    by (rule add_pos_nonneg) (simp_all add: sum_list_exp_nonneg)
  with Cons show ?thesis by simp
qed

lemma sum_list_map_divide:
  "sum_list (map (\<lambda>x. f x / c) xs) = sum_list (map f xs) / (c :: real)"
  by (induction xs) (simp_all add: add_divide_distrib)

text \<open>The posteriors of any vector of log-evidences add up to one.\<close>

lemma get_posteriors_sum:
  assumes "get_posteriors all_abfs = Inr ps"
  shows "sum_list ps = 1"
proof -
  from assms obtain m where m: "np_max all_abfs = Inr m"
    by (auto simp: get_posteriors_def get_logsum_def split: sum.splits)
  then have ne: "all_abfs \<noteq> []" by (auto simp: np_max_def)
  define S where "S = sum_list (map (\<lambda>x. exp (x - m)) all_abfs)"
  have Spos: "0 < S" unfolding S_def using ne by (rule sum_list_exp_pos)
  from assms m have ps: "ps = map (\<lambda>x. exp (x - (m + ln S))) all_abfs"
    by (auto simp: get_posteriors_def get_logsum_def S_def)
  have "\<And>x. exp (x - (m + ln S)) = exp (x - m) / S"
    using Spos by (simp add: exp_diff diff_diff_eq[symmetric])
  then have "sum_list ps = sum_list (map (\<lambda>x. exp (x - m) / S) all_abfs)"
    by (simp add: ps)
  also have "\<dots> = S / S"
    unfolding S_def by (rule sum_list_map_divide)
  finally show ?thesis using Spos by simp
qed

lemma get_posteriors_length: "get_posteriors xs = Inr ps \<Longrightarrow> length ps = length xs"
  by (auto simp: get_posteriors_def split: sum.splits)

lemma sum_list_five:
  "length ps = 5 \<Longrightarrow> sum_list ps = ps ! 0 + ps ! 1 + ps ! 2 + ps ! 3 + ps ! 4"
  for ps :: "real list"
  by (auto simp: length_Suc_conv eval_nat_numeral)

lemma coloc_all_abf_length: "length (coloc_all_abf p1 p2 p12 a b c) = 5"
  by (simp add: coloc_all_abf_def Let_def)

lemma coloc_output_sum:
  assumes "get_posteriors allABF = Inr posteriors" and "length allABF = 5"
  shows "coloc_h0 (coloc_output k n posteriors) + coloc_h1 (coloc_output k n posteriors)
       + coloc_h2 (coloc_output k n posteriors) + coloc_h3 (coloc_output k n posteriors)
       + coloc_h4 (coloc_output k n posteriors) = 1"
proof -
  have "length posteriors = 5"
    using assms by (simp add: get_posteriors_length)
  then show ?thesis
    using get_posteriors_sum[OF assms(1)] by (simp add: sum_list_five coloc_output_def)
qed

lemma coloc_group_sum:
  assumes "coloc_group priorc1 priorc2 priorc12 k grp = Inr (Some r)"
  shows "coloc_h0 r + coloc_h1 r + coloc_h2 r + coloc_h3 r + coloc_h4 r = 1"
  using assms unfolding coloc_group_def Let_def
  by (auto split: sum.splits if_splits
           simp: coloc_output_sum array_to_vector_length coloc_all_abf_length)

text \<open>The overlap \<open>two_snp_overlap\<close> gives one row under the default priors.\<close>

lemma logsum_zeros: "get_logsum [0, 0] = Inr (ln 2)"
  by (simp add: get_logsum_def np_max_def)

lemma all_abf_two_snp:
  "\<exists>v. array_to_vector (coloc_all_abf (1 / 10 ^ 4) (1 / 10 ^ 4) (1 / 10 ^ 5) (ln 2) (ln 2) (ln 2))
        = Inr v \<and> length v = 5"
proof -
  have "exp (ln 2 - (ln 2 + ln 2)) = (1 / 2 :: real)"
    by (simp add: exp_minus inverse_eq_divide)
  then show ?thesis
    by (simp add: coloc_all_abf_def Let_def spark_log_def null_add_def max_def)
qed

lemma two_snp_overlap_emitted:
  "\<exists>r. colocalise two_snp_overlap (1 / 10 ^ 4) (1 / 10 ^ 4) (1 / 10 ^ 5) = Inr [r]"
proof -
  obtain v where v: "array_to_vector
      (coloc_all_abf (1 / 10 ^ 4) (1 / 10 ^ 4) (1 / 10 ^ 5) (ln 2) (ln 2) (ln 2)) = Inr v"
    and "length v = 5"
    using all_abf_two_snp by blast
  then obtain p where "get_posteriors v = Inr p"
    by (cases v) (auto simp: get_posteriors_def get_logsum_def np_max_def)
  with v show ?thesis
    by (simp add: colocalise_def group_keys_def group_rows_def array_distinct_def
          coloc_group_def coloc_key_def logsum_zeros fillna_def two_snp_overlap_def
          shared_variant_def)
qed

text \<open>
  Claim C1.  Whatever the priors, every row that \<open>Coloc.colocalise\<close> emits has
  posteriors \<open>h0 + h1 + h2 + h3 + h4 = 1\<close>, hence within \<open>1e-9\<close> of one: they are the
  softmax of the five log-evidences.
\<close>

theorem coloc_posteriors_sum_to_one:
  assumes "colocalise overlapping_signals priorc1 priorc2 priorc12 = Inr res"
    and "r \<in> set res"
  shows "coloc_h0 r + coloc_h1 r + coloc_h2 r + coloc_h3 r + coloc_h4 r = 1
       \<and> \<bar>coloc_h0 r + coloc_h1 r + coloc_h2 r + coloc_h3 r + coloc_h4 r - 1\<bar> < 1 / 10 ^ 9"
proof -
  from assms have "Inr (Some r) \<in> set (map (\<lambda>k. coloc_group priorc1 priorc2 priorc12 k
                   (group_rows coloc_key overlapping_signals k))
            (group_keys coloc_key overlapping_signals))"
    unfolding colocalise_def by (rule collect_rows_mem)
  then obtain k grp where "coloc_group priorc1 priorc2 priorc12 k grp = Inr (Some r)"
    by auto
  then have "coloc_h0 r + coloc_h1 r + coloc_h2 r + coloc_h3 r + coloc_h4 r = 1"
    by (rule coloc_group_sum)
  then show ?thesis by simp
qed

theorem coloc_posteriors_sum_to_one_witness:
  "\<exists>r. colocalise two_snp_overlap (1 / 10 ^ 4) (1 / 10 ^ 4) (1 / 10 ^ 5) = Inr [r]
      \<and> coloc_h0 r + coloc_h1 r + coloc_h2 r + coloc_h3 r + coloc_h4 r = 1
      \<and> \<bar>coloc_h0 r + coloc_h1 r + coloc_h2 r + coloc_h3 r + coloc_h4 r - 1\<bar> < 1 / 10 ^ 9"
proof -
  obtain r where r: "colocalise two_snp_overlap (1 / 10 ^ 4) (1 / 10 ^ 4) (1 / 10 ^ 5) = Inr [r]"
    using two_snp_overlap_emitted by blast
  have "r \<in> set [r]" by simp
  from coloc_posteriors_sum_to_one[OF r this] r show ?thesis by blast
qed




section \<open>ECaviar: the colocalisation posterior probability\<close>

lemma ecaviar_result_group:
  assumes "res \<in> set (ecaviar_colocalise rows)"
  shows "res = ecaviar_group (res_left_studyLocusId res, res_right_studyLocusId res)
                 (pair_rows rows res)
       \<and> pair_rows rows res \<noteq> []"
proof -
  from assms obtain k where k: "k \<in> set (map ecaviar_key rows)"
    and res: "res = ecaviar_group k (group_rows ecaviar_key rows k)"
    by (auto simp: ecaviar_colocalise_def group_keys_def array_distinct_set)
  have key: "(res_left_studyLocusId res, res_right_studyLocusId res) = k"
    by (simp add: res ecaviar_group_def)
  from k have "group_rows ecaviar_key rows k \<noteq> []"
    by (auto simp: group_rows_def filter_empty_conv)
  with res key show ?thesis by (simp add: pair_rows_def)
qed

lemma get_clpp_none_iff: "get_clpp a b = None \<longleftrightarrow> a = None \<or> b = None"
  by (auto simp: get_clpp_def null_mult_def split: option.splits)

lemma clpp_group_sum:
  "sum_list (map (fillna 0) (map (\<lambda>r. get_clpp (left_posteriorProbability r)
                                              (right_posteriorProbability r)) grp))
   = sum_list (map pp_product (filter both_present grp))"
  by (induction grp)
     (auto simp: fillna_def both_present_def pp_product_def get_clpp_def null_mult_def
           split: option.splits)

lemma ecaviar_group_clpp:
  "clpp (ecaviar_group k grp) =
     (if \<forall>r\<in>set grp. \<not> both_present r then None
      else Some (sum_list (map pp_product (filter both_present grp))))"
proof -
  have "list_all (\<lambda>v. v = None)
          (map (\<lambda>r. get_clpp (left_posteriorProbability r) (right_posteriorProbability r)) grp)
        \<longleftrightarrow> (\<forall>r\<in>set grp. \<not> both_present r)"
    by (auto simp: list_all_iff get_clpp_none_iff both_present_def)
  then show ?thesis
    unfolding ecaviar_group_def spark_sum_def using clpp_group_sum[of grp] by simp
qed


lemma ecaviar_null_side_rows_result:
  "ecaviar_colocalise ecaviar_null_side_rows =
     [\<lparr> res_left_studyLocusId = 1, res_right_studyLocusId = 2, coloc_n_vars = 3,
        colocalisationMethod = ''eCAVIAR'', clpp = Some (26 / 100) \<rparr>]"
  by (simp add: ecaviar_colocalise_def ecaviar_null_side_rows_def shared_variant_def
      group_keys_def group_rows_def array_distinct_def ecaviar_key_def ecaviar_group_def
      spark_sum_def get_clpp_def null_mult_def fillna_def)



text \<open>
  Claim C10.  In \<open>ECaviar.colocalise\<close> a row of the overlap with no posterior
  probability on one side adds nothing to \<open>clpp\<close>, which is the sum of the products
  of the rows with both sides present; the row is still counted in
  \<open>coloc_n_vars\<close>; and \<open>clpp\<close> is null exactly when every row of the pair lacks a side.
\<close>

theorem ecaviar_null_side_rows_skipped:
  "\<forall>res\<in>set (ecaviar_colocalise rows).
     coloc_n_vars res = length (pair_rows rows res)
     \<and> (clpp res = None \<longleftrightarrow>
          (\<forall>r\<in>set (pair_rows rows res).
              left_posteriorProbability r = None \<or> right_posteriorProbability r = None))
     \<and> (clpp res \<noteq> None \<longrightarrow>
          clpp res = Some (sum_list (map pp_product
                             (filter both_present (pair_rows rows res)))))"
proof
  fix res
  assume res: "res \<in> set (ecaviar_colocalise rows)"
  let ?k = "(res_left_studyLocusId res, res_right_studyLocusId res)"
  let ?grp = "pair_rows rows res"
  from ecaviar_result_group[OF res] have eq: "res = ecaviar_group ?k ?grp" by simp
  have n: "coloc_n_vars (ecaviar_group ?k ?grp) = length ?grp"
    by (simp add: ecaviar_group_def)
  have c: "clpp (ecaviar_group ?k ?grp) =
     (if \<forall>r\<in>set ?grp. \<not> both_present r then None
      else Some (sum_list (map pp_product (filter both_present ?grp))))"
    by (rule ecaviar_group_clpp)
  have b: "(\<forall>r\<in>set ?grp. \<not> both_present r) \<longleftrightarrow>
       (\<forall>r\<in>set ?grp. left_posteriorProbability r = None \<or> right_posteriorProbability r = None)"
    by (simp add: both_present_def)
  from n c b have "coloc_n_vars (ecaviar_group ?k ?grp) = length ?grp
     \<and> (clpp (ecaviar_group ?k ?grp) = None \<longleftrightarrow>
          (\<forall>r\<in>set ?grp. left_posteriorProbability r = None \<or> right_posteriorProbability r = None))
     \<and> (clpp (ecaviar_group ?k ?grp) \<noteq> None \<longrightarrow>
          clpp (ecaviar_group ?k ?grp)
            = Some (sum_list (map pp_product (filter both_present ?grp))))"
    by (simp split: if_splits)
  with eq show "coloc_n_vars res = length ?grp
     \<and> (clpp res = None \<longleftrightarrow>
          (\<forall>r\<in>set ?grp. left_posteriorProbability r = None \<or> right_posteriorProbability r = None))
     \<and> (clpp res \<noteq> None \<longrightarrow>
          clpp res = Some (sum_list (map pp_product (filter both_present ?grp))))"
    by metis
qed

theorem ecaviar_null_side_rows_skipped_witness:
  "length ecaviar_null_side_rows = 3
   \<and> length (filter both_present ecaviar_null_side_rows) = 2
   \<and> coloc_n_vars (hd (ecaviar_colocalise ecaviar_null_side_rows)) = 3
   \<and> clpp (hd (ecaviar_colocalise ecaviar_null_side_rows)) = Some (26 / 100)"
proof -
  let ?res = "hd (ecaviar_colocalise ecaviar_null_side_rows)"
  have mem: "?res \<in> set (ecaviar_colocalise ecaviar_null_side_rows)"
    by (simp add: ecaviar_null_side_rows_result)
  have "pair_rows ecaviar_null_side_rows ?res = group_rows ecaviar_key ecaviar_null_side_rows (1, 2)"
    by (simp add: ecaviar_null_side_rows_result pair_rows_def)
  also have "\<dots> = ecaviar_null_side_rows"
    by (simp add: group_rows_def ecaviar_key_def ecaviar_null_side_rows_def shared_variant_def)
  finally have grp: "pair_rows ecaviar_null_side_rows ?res = ecaviar_null_side_rows" .
  have some: "clpp ?res \<noteq> None"
    by (simp add: ecaviar_null_side_rows_result)
  from ecaviar_null_side_rows_skipped[of ecaviar_null_side_rows] mem some
  have "coloc_n_vars ?res = length (pair_rows ecaviar_null_side_rows ?res)"
    and "clpp ?res = Some (sum_list (map pp_product
                             (filter both_present (pair_rows ecaviar_null_side_rows ?res))))"
    by blast+
  moreover have "sum_list (map pp_product (filter both_present ecaviar_null_side_rows)) = 26 / 100"
    and "length (filter both_present ecaviar_null_side_rows) = 2"
    and "length ecaviar_null_side_rows = 3"
    by (simp_all add: ecaviar_null_side_rows_def shared_variant_def pp_product_def
          both_present_def)
  ultimately show ?thesis using grp by simp
qed

section \<open>Effect harmonisation: the flag\<close>

lemma is_true_sql_eq: "is_true (sql_eq a b) \<longleftrightarrow> a \<noteq> None \<and> a = b"
  by (auto simp: is_true_def sql_eq_def split: option.splits)

lemma is_true_sql_or: "is_true (sql_or a b) \<longleftrightarrow> is_true a \<or> is_true b"
  by (auto simp: is_true_def sql_or_def)

text \<open>
  Claim C6.  \<open>needsHarmonisation\<close> is false when the reference allele equals the
  reverse complement of the alternate allele; otherwise it is true exactly when the
  risk allele equals the reference allele or its reverse complement.  An equality
  holds between present values only.  With reference T, alternate A and risk T the
  flag is false.
\<close>

theorem needsHarmonisation_rule:
  "needsHarmonisation referenceAllele alternateAllele riskAllele =
     (if referenceAllele \<noteq> None \<and> referenceAllele = get_reverse_complement alternateAllele
      then False
      else (riskAllele \<noteq> None \<and>
            (riskAllele = referenceAllele
             \<or> riskAllele = get_reverse_complement referenceAllele)))
   \<and> needsHarmonisation (Some ''T'') (Some ''A'') (Some ''T'') = False"
proof
  show "needsHarmonisation referenceAllele alternateAllele riskAllele =
     (if referenceAllele \<noteq> None \<and> referenceAllele = get_reverse_complement alternateAllele
      then False
      else (riskAllele \<noteq> None \<and>
            (riskAllele = referenceAllele
             \<or> riskAllele = get_reverse_complement referenceAllele)))"
    by (simp only: needsHarmonisation_def is_true_sql_eq is_true_sql_or if_False if_True
          split: if_splits) blast
  show "needsHarmonisation (Some ''T'') (Some ''A'') (Some ''T'') = False"
    by (simp add: needsHarmonisation_def is_true_sql_eq is_true_sql_or
          get_reverse_complement_def rlike_actg_def translate_actg_def)
qed

theorem needsHarmonisation_rule_witness:
  "needsHarmonisation (Some ''C'') (Some ''T'') (Some ''G'') = True
   \<and> needsHarmonisation (Some ''C'') (Some ''T'') (Some ''C'') = True
   \<and> needsHarmonisation (Some ''C'') (Some ''T'') (Some ''T'') = False
   \<and> needsHarmonisation (Some ''C'') (Some ''G'') (Some ''C'') = False"
  using needsHarmonisation_rule[of "Some ''C''" "Some ''T''" "Some ''G''"]
    needsHarmonisation_rule[of "Some ''C''" "Some ''T''" "Some ''C''"]
    needsHarmonisation_rule[of "Some ''C''" "Some ''T''" "Some ''T''"]
    needsHarmonisation_rule[of "Some ''C''" "Some ''G''" "Some ''C''"]
  by (simp add: get_reverse_complement_def rlike_actg_def translate_actg_def)

section \<open>Discovery samples: the split of a sample count\<close>


lemma split_sample_groups_eq:
  "split_sample_groups discovery_samples =
     map (\<lambda>s. map (\<lambda>a. \<lparr> ancestry = a,
                          sampleSize = cast_int (real_of_int (sampleSize s)
                              / real_of_int (int (length (split_ancestry (ancestry s))))) \<rparr>)
                   (split_ancestry (ancestry s)))
         discovery_samples"
  by (simp add: split_sample_groups_def resolved_sample_count_def exploded_ancestries_def
        merge_ancestries_and_counts_def zip_map_map zip_map1 zip_map2 zip_same_conv_map comp_def
        Let_def)





text \<open>The example of the docstring: the count of a repeated ancestry is the sum of its shares.\<close>

lemma parse_discovery_samples_docstring:
  "parse_discovery_samples
     [\<lparr> ancestry = ''European, African, Asian'', sampleSize = 100 \<rparr>,
      \<lparr> ancestry = ''European'', sampleSize = 50 \<rparr>] =
   [\<lparr> ancestry = ''European'', sampleSize = 83 \<rparr>,
    \<lparr> ancestry = ''African'', sampleSize = 33 \<rparr>,
    \<lparr> ancestry = ''Asian'', sampleSize = 33 \<rparr>]"
  by (simp add: parse_discovery_samples_def unique_ancestries_def parsed_sample_size_def
       split_sample_groups_eq exploded_ancestries_def array_union_def array_distinct_def
       split_ancestry_def is_whitespace_def closes_parenthesis_def cast_int_def
       normalize_ancestries_def)



section \<open>RAISS: the inversion and its effect on \<open>sig_t\<close>\<close>


lemma fill_diagonal_nth: "i < length a \<Longrightarrow> fill_diagonal a v ! i = (a ! i)[i := v]"
  by (simp add: fill_diagonal_def)



lemma fill_diagonal_off_diagonal:
  "i < length a \<Longrightarrow> j \<noteq> i \<Longrightarrow> fill_diagonal a v ! i ! j = a ! i ! j"
  by (simp add: fill_diagonal_nth)

text \<open>\<open>_invert_sig_t\<close> never returns \<open>None\<close>, so \<open>raiss_model\<close> never returns \<open>{"mu": None}\<close>.\<close>

lemma invert_sig_t_never_None: "snd (invert_sig_t la depth sig_t lamb rtol) \<noteq> Inr None"
  by (induction la depth sig_t lamb rtol rule: invert_sig_t.induct)
     (auto simp: Let_def split: sum.splits)

lemma raiss_model_never_MuNone:
  "snd (raiss_model la depth zt sig_t sig_i_t lamb rtol) \<noteq> Inr MuNone"
  using invert_sig_t_never_None[of la depth sig_t lamb rtol]
  by (auto simp: raiss_model_def Let_def split: prod.splits sum.splits option.splits)







section \<open>RAISS: no LD between the unobserved and the observed variants\<close>



















end
